theory Spec2Isabelle
  imports Main
begin

section \<open>The user store as the view reads it\<close>

text \<open>
  The view \<^verbatim>\<open>views/User.vue\<close> holds a handle on the user store
  (\<^verbatim>\<open>useUserStore()\<close>) and reads five of its fields:
  \<^verbatim>\<open>isExistOnServer\<close>, \<^verbatim>\<open>_loaded\<close>, \<^verbatim>\<open>username\<close>,
  \<^verbatim>\<open>uuid\<close> and \<^verbatim>\<open>created\<close>. The field \<^verbatim>\<open>_loaded\<close> is
  written \<open>loaded\<close> (an identifier cannot start with an underscore) and the store's
  \<^verbatim>\<open>username\<close> is written \<open>store_username\<close>, since the view has a field
  \<^verbatim>\<open>username\<close> of its own.
\<close>

record userStore =
  isExistOnServer :: bool
  loaded :: bool
  store_username :: string
  uuid :: string
  created :: string

section \<open>The view: data, template, methods\<close>

text \<open>
  \<^verbatim>\<open>data() { return { error: '', username: '', userStore: useUserStore() } }\<close>
\<close>

record User =
  error :: string
  username :: string
  userStore :: userStore

definition data :: "userStore \<Rightarrow> User" where
  "data useUserStore = \<lparr>error = '''', username = '''', userStore = useUserStore\<rparr>"

subsection \<open>Template\<close>

text \<open>
  The targets of the three \<^verbatim>\<open>v-model\<close> bindings of the template:
  \<^verbatim>\<open>username\<close>, \<^verbatim>\<open>userStore.uuid\<close> and \<^verbatim>\<open>userStore.created\<close>.
\<close>

datatype model = M_username | M_uuid | M_created

text \<open>
  What the template renders: the alert with its text, a text input with its binding, its
  value and its \<^verbatim>\<open>:disabled\<close> attribute, a button with its label (both buttons
  have \<^verbatim>\<open>@click="this.submit"\<close>).
\<close>

datatype widget =
  Alert string
| TextInput model string bool
| Button string

text \<open>
  \<^verbatim>\<open>form(v-if="userStore.isExistOnServer && userStore._loaded")\<close>: the inputs
  Username, UUID (disabled), Created (disabled) and the button Submit.
\<close>

definition update_form :: "User \<Rightarrow> widget list" where
  "update_form vm =
     (if isExistOnServer (userStore vm) \<and> loaded (userStore vm)
      then [TextInput M_username (username vm) False,
            TextInput M_uuid (uuid (userStore vm)) True,
            TextInput M_created (created (userStore vm)) True,
            Button ''Submit'']
      else [])"

text \<open>
  \<^verbatim>\<open>form(v-if="!userStore.isExistOnServer && userStore._loaded")\<close>: the inputs
  Username and UUID (disabled) and the button Register.
\<close>

definition register_form :: "User \<Rightarrow> widget list" where
  "register_form vm =
     (if \<not> isExistOnServer (userStore vm) \<and> loaded (userStore vm)
      then [TextInput M_username (username vm) False,
            TextInput M_uuid (uuid (userStore vm)) True,
            Button ''Register'']
      else [])"

text \<open>
  \<^verbatim>\<open>div.alert.alert-danger(v-if="error")\<close>: a string is truthy when it is not
  empty.
\<close>

definition alert :: "User \<Rightarrow> widget list" where
  "alert vm = (if error vm \<noteq> '''' then [Alert (error vm)] else [])"

definition render :: "User \<Rightarrow> widget list" where
  "render vm = alert vm @ update_form vm @ register_form vm"

fun is_button :: "widget \<Rightarrow> bool" where
  "is_button (Button _) = True"
| "is_button _ = False"

fun is_alert :: "widget \<Rightarrow> bool" where
  "is_alert (Alert _) = True"
| "is_alert _ = False"

fun accepts :: "model \<Rightarrow> widget \<Rightarrow> bool" where
  "accepts m (TextInput m' _ disabled) = (m' = m \<and> \<not> disabled)"
| "accepts m _ = False"

text \<open>What typing into an input does: \<^verbatim>\<open>v-model\<close> assigns to its target.\<close>

fun assign :: "model \<Rightarrow> string \<Rightarrow> User \<Rightarrow> User" where
  "assign M_username v vm = vm\<lparr>username := v\<rparr>"
| "assign M_uuid v vm = vm\<lparr>userStore := (userStore vm)\<lparr>uuid := v\<rparr>\<rparr>"
| "assign M_created v vm = vm\<lparr>userStore := (userStore vm)\<lparr>created := v\<rparr>\<rparr>"

subsection \<open>Methods\<close>

text \<open>
  The three store methods the view calls, with their arguments:
  \<^verbatim>\<open>ensureLoaded()\<close>, \<^verbatim>\<open>register({username})\<close> and
  \<^verbatim>\<open>update({username})\<close>. Each returns a promise, which the view awaits.
\<close>

datatype storeCall = EnsureLoaded | Register string | Update string

fun is_mutation :: "storeCall \<Rightarrow> bool" where
  "is_mutation EnsureLoaded = False"
| "is_mutation (Register _) = True"
| "is_mutation (Update _) = True"

text \<open>
  The kinds of failure of a remote call, and how an awaited promise settles: it is
  fulfilled (the view ignores the value) or rejected with a failure, which \<^verbatim>\<open>await\<close>
  throws.
\<close>

datatype failure = TransportError | ValidationError | ConflictError

datatype outcome = Fulfilled | Rejected failure

text \<open>
  What the view does to the world outside it: it calls a store method, it calls
  \<^verbatim>\<open>window.location.reload()\<close>, or an exception leaves one of its async methods
  (no method has a \<^verbatim>\<open>try\<close>, and \<^verbatim>\<open>mounted\<close> does not await
  \<^verbatim>\<open>init\<close>).
\<close>

datatype effect = Dispatch storeCall | Reload | Uncaught failure

text \<open>
  \<^verbatim>\<open>submit\<close> up to its \<^verbatim>\<open>await\<close>: the store method it calls.
\<close>

definition submit_call :: "User \<Rightarrow> storeCall" where
  "submit_call vm =
     (if \<not> isExistOnServer (userStore vm)
      then Register (username vm)
      else Update (username vm))"

text \<open>
  The rest of a method once the promise it awaits has settled. After
  \<^verbatim>\<open>ensureLoaded\<close>, \<^verbatim>\<open>init\<close> copies the store's username; after
  \<^verbatim>\<open>register\<close> or \<^verbatim>\<open>update\<close>, \<^verbatim>\<open>submit\<close> reloads the page. A
  rejection leaves the method at the \<^verbatim>\<open>await\<close>.
\<close>

fun resume :: "storeCall \<Rightarrow> outcome \<Rightarrow> User \<Rightarrow> User \<times> effect list" where
  "resume c (Rejected e) vm = (vm, [Uncaught e])"
| "resume EnsureLoaded Fulfilled vm = (vm\<lparr>username := store_username (userStore vm)\<rparr>, [])"
| "resume (Register _) Fulfilled vm = (vm, [Reload])"
| "resume (Update _) Fulfilled vm = (vm, [Reload])"

text \<open>
  \<^verbatim>\<open>submit\<close> from its call to its end, for a promise that settles with the given
  outcome: the effects of the method, in order.
\<close>

definition submit :: "outcome \<Rightarrow> User \<Rightarrow> effect list" where
  "submit out vm = Dispatch (submit_call vm) # snd (resume (submit_call vm) out vm)"

section \<open>The page: events between the awaits\<close>

text \<open>
  One event handler runs at a time, and a method is suspended only at its
  \<^verbatim>\<open>await\<close>. The page holds the view, the store calls whose promises have not
  settled, and the effects so far.
\<close>

record page =
  view :: User
  outstanding :: "storeCall list"
  effects :: "effect list"

definition call :: "storeCall \<Rightarrow> page \<Rightarrow> page" where
  "call c p = p\<lparr>outstanding := outstanding p @ [c], effects := effects p @ [Dispatch c]\<rparr>"

text \<open>
  \<^verbatim>\<open>init\<close> up to its \<^verbatim>\<open>await\<close>: it calls
  \<^verbatim>\<open>ensureLoaded\<close> and is suspended (\<open>resume\<close> has the rest).
  \<^verbatim>\<open>mounted\<close> calls \<^verbatim>\<open>init\<close> and does not await it.
\<close>

definition init :: "page \<Rightarrow> page" where
  "init p = call EnsureLoaded p"

definition mounted :: "page \<Rightarrow> page" where
  "mounted p = init p"

definition open_page :: "userStore \<Rightarrow> page" where
  "open_page useUserStore = mounted \<lparr>view = data useUserStore, outstanding = [], effects = []\<rparr>"

text \<open>
  The events of a page: the store changes its own state (it is reactive, and its code is
  not the view's), the promise of an outstanding call settles, the user types into an
  input, the user clicks a button. Typing needs an input that is rendered and not
  disabled; a click needs a rendered button.
\<close>

datatype event =
  StoreChange userStore
| Settle nat outcome
| Type model string
| Click

fun step :: "event \<Rightarrow> page \<Rightarrow> page option" where
  "step (StoreChange s) p = Some (p\<lparr>view := (view p)\<lparr>userStore := s\<rparr>\<rparr>)"
| "step (Settle i out) p =
     (if i < length (outstanding p)
      then (case resume (outstanding p ! i) out (view p) of
              (vm', es) \<Rightarrow>
                Some (p\<lparr>view := vm',
                        outstanding := take i (outstanding p) @ drop (Suc i) (outstanding p),
                        effects := effects p @ es\<rparr>))
      else None)"
| "step (Type m v) p =
     (if list_ex (accepts m) (render (view p))
      then Some (p\<lparr>view := assign m v (view p)\<rparr>)
      else None)"
| "step Click p =
     (if list_ex is_button (render (view p))
      then Some (call (submit_call (view p)) p)
      else None)"

fun run :: "event list \<Rightarrow> page \<Rightarrow> page option" where
  "run [] p = Some p"
| "run (e # es) p = (case step e p of None \<Rightarrow> None | Some p' \<Rightarrow> run es p')"

section \<open>The store's operations\<close>

text \<open>
  The store module \<^verbatim>\<open>~/stores/user\<close> is imported by the view and is not among
  the sources at hand. Its three operations are modelled from the specification, over the
  fields the view reads: the specification's \<open>id\<close>, \<open>displayName\<close>,
  \<open>createdAt\<close>, \<open>existsRemotely\<close> and \<open>loaded\<close> are the store's
  \<^verbatim>\<open>uuid\<close>, \<^verbatim>\<open>username\<close>, \<^verbatim>\<open>created\<close>,
  \<^verbatim>\<open>isExistOnServer\<close> and \<^verbatim>\<open>_loaded\<close>.
\<close>

text \<open>
  Modelled from the spec: the record the remote identity service returns,
  \<open>{ id, displayName, createdAt }\<close> (section 6).
\<close>

record identityRecord =
  r_id :: string
  r_displayName :: string
  r_createdAt :: string

text \<open>
  Modelled from the spec: the answer to \<open>GET /identity\<close>, a record, the "not found"
  signal (not a failure), or a failure.
\<close>

datatype fetched = Found identityRecord | NotFound | FetchFailed failure

text \<open>
  Modelled from the spec: the three requests of section 6, \<open>GET /identity\<close>,
  \<open>POST /identity\<close> with \<open>{ id, displayName }\<close>, and \<open>PUT /identity/{id}\<close>
  with \<open>{ displayName }\<close>.
\<close>

datatype request =
  GET_identity
| POST_identity string string
| PUT_identity string string

text \<open>
  Modelled from the spec: the remote identity service, an opaque collaborator, as what it
  answers to each request at the time of a call.
\<close>

record remote =
  answer_get :: fetched
  answer_post :: "string \<Rightarrow> string \<Rightarrow> failure + identityRecord"
  answer_put :: "string \<Rightarrow> string \<Rightarrow> failure + identityRecord"

text \<open>
  Modelled from the spec: what an operation of the missing store module leaves behind: the store's state, the requests it has
  sent, and the failure it surfaces to its caller, if any.
\<close>

datatype result = Result (state: userStore) (sent: "request list") (raised: "failure option")

text \<open>
  Modelled from the spec: \<open>ensureLoaded()\<close> (section 4.1), the method of the missing
  store module that the view's \<^verbatim>\<open>init\<close> awaits. A no-op when \<open>loaded\<close> is true; otherwise one fetch: a
  record found populates the fields and sets both flags, "not found" leaves the id and sets
  \<open>loaded\<close>, a failure leaves the state and is surfaced.
\<close>

definition ensureLoaded :: "remote \<Rightarrow> userStore \<Rightarrow> result" where
  "ensureLoaded rem s =
     (if loaded s then Result s [] None
      else (case answer_get rem of
              Found r \<Rightarrow>
                Result (s\<lparr>isExistOnServer := True, loaded := True,
                          store_username := r_displayName r, uuid := r_id r,
                          created := r_createdAt r\<rparr>) [GET_identity] None
            | NotFound \<Rightarrow>
                Result (s\<lparr>isExistOnServer := False, loaded := True\<rparr>) [GET_identity] None
            | FetchFailed e \<Rightarrow> Result s [GET_identity] (Some e)))"

text \<open>
  Modelled from the spec: \<open>register({ displayName })\<close> (section 4.1), the method of
  the missing store module that the view's \<^verbatim>\<open>submit\<close> awaits in its first
  branch. The precondition is
  \<open>loaded\<close> and not \<open>existsRemotely\<close>, and a local guard makes a call outside it
  fail fast, as a conflict, with no request. Otherwise the new identifier (\<open>newId\<close>,
  from the generator, never from the input) and the name go to the create endpoint; the
  returned record becomes the local state, a failure leaves the state and is surfaced.
\<close>

definition register :: "string \<Rightarrow> remote \<Rightarrow> string \<Rightarrow> userStore \<Rightarrow> result" where
  "register newId rem displayName s =
     (if loaded s \<and> \<not> isExistOnServer s
      then (case answer_post rem newId displayName of
              Inr r \<Rightarrow>
                Result (s\<lparr>isExistOnServer := True, store_username := r_displayName r,
                          uuid := r_id r, created := r_createdAt r\<rparr>)
                  [POST_identity newId displayName] None
            | Inl e \<Rightarrow> Result s [POST_identity newId displayName] (Some e))
      else Result s [] (Some ConflictError))"

text \<open>
  Modelled from the spec: \<open>update({ displayName })\<close> (section 4.1), the method of
  the missing store module that the view's \<^verbatim>\<open>submit\<close> awaits in its second
  branch. The request is keyed by
  the existing id; on success the local name is replaced by the one of the response, a
  failure leaves the state and is surfaced. The specification gives the operation a
  precondition and no local guard, so the request is sent in every state.
\<close>

definition update :: "remote \<Rightarrow> string \<Rightarrow> userStore \<Rightarrow> result" where
  "update rem displayName s =
     (case answer_put rem (uuid s) displayName of
        Inr r \<Rightarrow>
          Result (s\<lparr>store_username := r_displayName r\<rparr>)
            [PUT_identity (uuid s) displayName] None
      | Inl e \<Rightarrow> Result s [PUT_identity (uuid s) displayName] (Some e))"

text \<open>
  \<open>ensureLoaded\<close> called once for each remote of a list, in order, each call on the
  state the one before has left.
\<close>

fun ensureLoaded_each :: "remote list \<Rightarrow> userStore \<Rightarrow> userStore" where
  "ensureLoaded_each [] s = s"
| "ensureLoaded_each (rem # rems) s = ensureLoaded_each rems (state (ensureLoaded rem s))"





section \<open>States and remotes of the specification's scenarios\<close>

text \<open>
  The store at the start of a session, the store once a load has found no record, and the
  store once a load has found the record of scenario B.
\<close>

definition fresh_store :: userStore where
  "fresh_store =
     \<lparr>isExistOnServer = False, loaded = False, store_username = '''', uuid = '''',
      created = ''''\<rparr>"

definition absent_store :: userStore where
  "absent_store =
     \<lparr>isExistOnServer = False, loaded = True, store_username = '''', uuid = '''',
      created = ''''\<rparr>"

definition present_store :: userStore where
  "present_store =
     \<lparr>isExistOnServer = True, loaded = True, store_username = ''alice'', uuid = ''u-123'',
      created = ''T0''\<rparr>"

text \<open>
  A remote that answers every request with a transport failure, and the remote of
  scenarios A and B, which holds \<open>u-123\<close> created at \<open>T0\<close> and returns the name it is
  sent.
\<close>

definition unreachable :: remote where
  "unreachable =
     \<lparr>answer_get = FetchFailed TransportError,
      answer_post = (\<lambda>i d. Inl TransportError),
      answer_put = (\<lambda>i d. Inl TransportError)\<rparr>"

definition serving :: "string \<Rightarrow> remote" where
  "serving name =
     \<lparr>answer_get = Found \<lparr>r_id = ''u-123'', r_displayName = name, r_createdAt = ''T0''\<rparr>,
      answer_post = (\<lambda>i d. Inr \<lparr>r_id = i, r_displayName = d, r_createdAt = ''T0''\<rparr>),
      answer_put = (\<lambda>i d. Inr \<lparr>r_id = i, r_displayName = d, r_createdAt = ''T0''\<rparr>)\<rparr>"

section \<open>Facts about the template and the steps\<close>

lemma button_iff_loaded: "list_ex is_button (render vm) = loaded (userStore vm)"
  by (simp add: render_def alert_def update_form_def register_form_def)

lemma accepts_iff_username:
  "list_ex (accepts m) (render vm) = (m = M_username \<and> loaded (userStore vm))"
  by (cases m) (auto simp add: render_def alert_def update_form_def register_form_def)

lemma resume_keeps:
  "resume c out vm = (vm', es) \<Longrightarrow> error vm' = error vm \<and> userStore vm' = userStore vm"
  by (cases "(c, out, vm)" rule: resume.cases) auto

lemma step_keeps_error: "step e p = Some p' \<Longrightarrow> error (view p') = error (view p)"
proof (cases e)
  case (Settle i out)
  assume "step e p = Some p'"
  with Settle show ?thesis
    by (auto split: if_splits prod.splits dest: resume_keeps)
next
  case (Type m v)
  assume "step e p = Some p'"
  with Type show ?thesis
    by (auto simp: accepts_iff_username split: if_splits)
qed (auto simp: call_def split: if_splits)

lemma run_keeps_error: "run es p = Some p' \<Longrightarrow> error (view p') = error (view p)"
proof (induction es arbitrary: p)
  case Nil
  then show ?case by simp
next
  case (Cons e es)
  then show ?case
    by (auto split: option.splits dest: step_keeps_error)
qed

lemma typing_step:
  "step (Type m v) p = Some p' \<Longrightarrow>
     m = M_username \<and> p' = p\<lparr>view := (view p)\<lparr>username := v\<rparr>\<rparr>"
  by (auto simp: accepts_iff_username split: if_splits)

lemma typing_run:
  "run (map (\<lambda>(m, v). Type m v) ts) p = Some p' \<Longrightarrow>
     userStore (view p') = userStore (view p) \<and> error (view p') = error (view p) \<and>
     outstanding p' = outstanding p \<and> effects p' = effects p"
proof (induction ts arbitrary: p)
  case Nil
  then show ?case by simp
next
  case (Cons t ts)
  obtain m v where t: "t = (m, v)" by (cases t)
  from Cons.prems t obtain q where q: "step (Type m v) p = Some q"
    and rest: "run (map (\<lambda>(m, v). Type m v) ts) q = Some p'"
    by (auto split: option.splits)
  from typing_step [OF q] have "q = p\<lparr>view := (view p)\<lparr>username := v\<rparr>\<rparr>" by simp
  with Cons.IH [OF rest] show ?case by simp
qed

lemma ensureLoaded_loaded: "loaded s \<Longrightarrow> ensureLoaded rem s = Result s [] None"
  by (simp add: ensureLoaded_def)

lemma ensureLoaded_each_loaded: "loaded s \<Longrightarrow> ensureLoaded_each rems s = s"
  by (induction rems) (simp_all add: ensureLoaded_loaded)

lemma ensureLoaded_twice:
  "state (ensureLoaded rem (state (ensureLoaded rem s))) = state (ensureLoaded rem s)"
  by (simp add: ensureLoaded_def split: fetched.splits)

lemma ensureLoaded_each_fixed:
  "state (ensureLoaded rem t) = t \<Longrightarrow> ensureLoaded_each (replicate n rem) t = t"
  by (induction n) simp_all







text \<open>
  The view keeps no in-flight flag: whether a click is accepted rests on the store's
  \<^verbatim>\<open>_loaded\<close> alone, and an accepted click adds one store call to those
  outstanding, whatever is outstanding already. What becomes of a second
  \<open>register\<close> or \<open>update\<close> while one is outstanding is the store's own.
\<close>

lemma click_adds_one_call:
  "loaded (userStore (view p)) \<Longrightarrow>
     \<exists>p'. step Click p = Some p' \<and> outstanding p' = outstanding p @ [submit_call (view p)]"
  by (simp add: button_iff_loaded call_def)

section \<open>The claims\<close>

text \<open>
  C1. A submit calls \<open>register\<close> exactly when the store's \<open>isExistOnServer\<close> is
  false at the moment of the click, and \<open>update\<close> otherwise, with the view's username.
  The flag is the one the store has at the click: the state \<open>s0\<close> that the store had
  when the page was opened does not occur in the conclusion.
\<close>

theorem submit_routes_on_current_flag:
  assumes "run evs (open_page s0) = Some p" and "step Click p = Some p'"
  shows "effects p' = effects p @
           [Dispatch (if \<not> isExistOnServer (userStore (view p))
                      then Register (username (view p))
                      else Update (username (view p)))] \<and>
         (is_mutation (submit_call (view p))) \<and>
         ((\<exists>u. submit_call (view p) = Register u) = (\<not> isExistOnServer (userStore (view p))))"
  using assms(2)
  by (auto simp: call_def submit_call_def split: if_splits)

theorem submit_routes_on_current_flag_witness:
  "run [StoreChange absent_store, Settle 0 Fulfilled, StoreChange present_store]
     (open_page fresh_store)
   = Some \<lparr>view = \<lparr>error = '''', username = '''', userStore = present_store\<rparr>,
           outstanding = [], effects = [Dispatch EnsureLoaded]\<rparr> \<and>
   step Click \<lparr>view = \<lparr>error = '''', username = '''', userStore = present_store\<rparr>,
           outstanding = [], effects = [Dispatch EnsureLoaded]\<rparr>
   = Some \<lparr>view = \<lparr>error = '''', username = '''', userStore = present_store\<rparr>,
           outstanding = [Update ''''],
           effects = [Dispatch EnsureLoaded, Dispatch (Update '''')]\<rparr> \<and>
   isExistOnServer present_store \<and> \<not> isExistOnServer absent_store"
proof -
  let ?p = "\<lparr>view = \<lparr>error = '''', username = '''', userStore = present_store\<rparr>,
             outstanding = [], effects = [Dispatch EnsureLoaded]\<rparr>"
  let ?p' = "\<lparr>view = \<lparr>error = '''', username = '''', userStore = present_store\<rparr>,
              outstanding = [Update ''''],
              effects = [Dispatch EnsureLoaded, Dispatch (Update '''')]\<rparr>"
  have r: "run [StoreChange absent_store, Settle 0 Fulfilled, StoreChange present_store]
             (open_page fresh_store) = Some ?p"
    by (simp add: open_page_def mounted_def init_def call_def data_def absent_store_def
        present_store_def fresh_store_def)
  have c: "step Click ?p = Some ?p'"
    by (simp add: button_iff_loaded call_def submit_call_def present_store_def)
  from submit_routes_on_current_flag [OF r c] r c show ?thesis
    by (simp add: present_store_def absent_store_def)
qed

text \<open>
  C3. No method of the view assigns to \<open>error\<close>: on every page reached from an
  opened page, whatever has failed on the way, \<open>error\<close> is the empty string of
  \<open>data()\<close> and no alert is rendered. So a failure of \<open>ensureLoaded\<close>,
  \<open>register\<close> or \<open>update\<close> is never displayed; a rejection leaves the awaiting
  method uncaught.
\<close>

theorem failure_is_never_displayed:
  assumes "run evs (open_page s) = Some p"
  shows "error (view p) = '''' \<and> filter is_alert (render (view p)) = []"
proof -
  have "error (view (open_page s)) = ''''"
    by (simp add: open_page_def mounted_def init_def call_def data_def)
  with run_keeps_error [OF assms] have e: "error (view p) = ''''"
    by simp
  then show ?thesis
    by (simp add: render_def alert_def update_form_def register_form_def)
qed

theorem failure_is_never_displayed_witness:
  "run [StoreChange absent_store, Settle 0 Fulfilled, Click,
        Settle 0 (Rejected ConflictError)] (open_page fresh_store)
   = Some \<lparr>view = \<lparr>error = '''', username = '''', userStore = absent_store\<rparr>,
           outstanding = [],
           effects = [Dispatch EnsureLoaded, Dispatch (Register ''''),
                      Uncaught ConflictError]\<rparr> \<and>
   error \<lparr>error = '''', username = '''', userStore = absent_store\<rparr> = '''' \<and>
   filter is_alert (render \<lparr>error = '''', username = '''', userStore = absent_store\<rparr>) = []"
proof -
  have r: "run [StoreChange absent_store, Settle 0 Fulfilled, Click,
                Settle 0 (Rejected ConflictError)] (open_page fresh_store)
      = Some \<lparr>view = \<lparr>error = '''', username = '''', userStore = absent_store\<rparr>,
              outstanding = [],
              effects = [Dispatch EnsureLoaded, Dispatch (Register ''''),
                         Uncaught ConflictError]\<rparr>"
    by (simp add: open_page_def mounted_def init_def call_def data_def button_iff_loaded
        submit_call_def absent_store_def fresh_store_def)
  from failure_is_never_displayed [OF r] r show ?thesis
    by simp
qed

text \<open>
  C4. When \<open>ensureLoaded\<close>, \<open>register\<close> or \<open>update\<close> surfaces a failure, the store
  is in the state it was called in; and the view, when the promise it awaits is rejected,
  changes nothing of its own either.
\<close>

theorem failure_leaves_store_unchanged:
  "(raised (ensureLoaded rem s) \<noteq> None \<longrightarrow> state (ensureLoaded rem s) = s) \<and>
   (raised (register newId rem d s) \<noteq> None \<longrightarrow> state (register newId rem d s) = s) \<and>
   (raised (update rem d s) \<noteq> None \<longrightarrow> state (update rem d s) = s) \<and>
   fst (resume c (Rejected e) vm) = vm"
  by (simp add: ensureLoaded_def register_def update_def split: fetched.splits sum.splits)

theorem failure_leaves_store_unchanged_witness:
  "raised (ensureLoaded unreachable fresh_store) = Some TransportError \<and>
   state (ensureLoaded unreachable fresh_store) = fresh_store \<and>
   raised (register ''u-123'' unreachable ''alice'' absent_store) = Some TransportError \<and>
   state (register ''u-123'' unreachable ''alice'' absent_store) = absent_store \<and>
   raised (register ''u-456'' (serving ''alice'') ''bob'' present_store) = Some ConflictError \<and>
   state (register ''u-456'' (serving ''alice'') ''bob'' present_store) = present_store \<and>
   raised (update unreachable ''alice2'' present_store) = Some TransportError \<and>
   state (update unreachable ''alice2'' present_store) = present_store"
proof -
  have e: "raised (ensureLoaded unreachable fresh_store) = Some TransportError"
    by (simp add: ensureLoaded_def unreachable_def fresh_store_def)
  have r: "raised (register ''u-123'' unreachable ''alice'' absent_store) = Some TransportError"
    by (simp add: register_def unreachable_def absent_store_def)
  have c: "raised (register ''u-456'' (serving ''alice'') ''bob'' present_store)
             = Some ConflictError"
    by (simp add: register_def present_store_def)
  have u: "raised (update unreachable ''alice2'' present_store) = Some TransportError"
    by (simp add: update_def unreachable_def)
  from failure_leaves_store_unchanged [of unreachable fresh_store "''u-123''" "''alice''"]
    failure_leaves_store_unchanged [of unreachable absent_store "''u-123''" "''alice''"]
    failure_leaves_store_unchanged [of "serving ''alice''" present_store "''u-456''" "''bob''"]
    failure_leaves_store_unchanged [of unreachable present_store "''u-123''" "''alice2''"]
    e r c u
  show ?thesis by simp
qed

text \<open>
  C5. Once \<open>loaded\<close> is true, \<open>ensureLoaded\<close> is a no-op: it sends nothing and
  changes nothing. Calling it any number of times against the same remote gives the state
  of calling it once; and once a call has completed the load, further calls give that state
  whatever the remote answers them.
\<close>

theorem ensureLoaded_idempotent:
  "(loaded s \<longrightarrow> ensureLoaded rem s = Result s [] None) \<and>
   ensureLoaded_each (replicate (Suc n) rem) s = state (ensureLoaded rem s) \<and>
   (loaded (state (ensureLoaded rem s)) \<longrightarrow>
      ensureLoaded_each (rem # rems) s = state (ensureLoaded rem s))"
proof (intro conjI impI)
  assume "loaded s"
  then show "ensureLoaded rem s = Result s [] None"
    by (rule ensureLoaded_loaded)
next
  have "ensureLoaded_each (replicate n rem) (state (ensureLoaded rem s))
          = state (ensureLoaded rem s)"
    by (rule ensureLoaded_each_fixed) (rule ensureLoaded_twice)
  then show "ensureLoaded_each (replicate (Suc n) rem) s = state (ensureLoaded rem s)"
    by simp
next
  assume "loaded (state (ensureLoaded rem s))"
  then have "ensureLoaded_each rems (state (ensureLoaded rem s)) = state (ensureLoaded rem s)"
    by (rule ensureLoaded_each_loaded)
  then show "ensureLoaded_each (rem # rems) s = state (ensureLoaded rem s)"
    by simp
qed


theorem ensureLoaded_idempotent_witness:
  "loaded present_store \<and>
   ensureLoaded unreachable present_store = Result present_store [] None \<and>
   ensureLoaded_each (replicate (Suc 2) (serving ''alice'')) fresh_store = present_store \<and>
   state (ensureLoaded (serving ''alice'') fresh_store) = present_store \<and>
   ensureLoaded_each [serving ''alice'', unreachable, serving ''bob''] fresh_store
     = present_store"
proof -
  have l: "loaded present_store"
    by (simp add: present_store_def)
  have s: "state (ensureLoaded (serving ''alice'') fresh_store) = present_store"
    by (simp add: ensureLoaded_def serving_def fresh_store_def present_store_def)
  note a = ensureLoaded_idempotent [of present_store unreachable 0 "[]"]
  note b = ensureLoaded_idempotent
    [of fresh_store "serving ''alice''" 2 "[unreachable, serving ''bob'']"]
  from a l have 1: "ensureLoaded unreachable present_store = Result present_store [] None"
    by blast
  from b have 2: "ensureLoaded_each (replicate (Suc 2) (serving ''alice'')) fresh_store
      = state (ensureLoaded (serving ''alice'') fresh_store)"
    by blast
  from b l s have 3:
    "ensureLoaded_each [serving ''alice'', unreachable, serving ''bob''] fresh_store
      = state (ensureLoaded (serving ''alice'') fresh_store)"
    by metis
  from l 1 2 3 s show ?thesis
    by (simp only: simp_thms)
qed

text \<open>
  C6. An \<open>update\<close>, successful or not, leaves the id, the creation time and both flags
  as they were; the view's update branch passes the username and nothing else; and the
  template accepts no typing into the UUID and Created inputs.
\<close>

theorem update_keeps_id_and_created:
  "uuid (state (update rem d s)) = uuid s \<and>
   created (state (update rem d s)) = created s \<and>
   isExistOnServer (state (update rem d s)) = isExistOnServer s \<and>
   loaded (state (update rem d s)) = loaded s \<and>
   (isExistOnServer (userStore vm) \<longrightarrow> submit_call vm = Update (username vm)) \<and>
   step (Type M_uuid v) p = None \<and>
   step (Type M_created v) p = None"
  by (simp add: update_def submit_call_def accepts_iff_username split: sum.splits)

theorem update_keeps_id_and_created_witness:
  "isExistOnServer (userStore \<lparr>error = '''', username = ''alice2'', userStore = present_store\<rparr>) \<and>
   submit_call \<lparr>error = '''', username = ''alice2'', userStore = present_store\<rparr>
     = Update ''alice2'' \<and>
   state (update (serving ''alice'') ''alice2'' present_store)
     = present_store\<lparr>store_username := ''alice2''\<rparr> \<and>
   uuid (state (update (serving ''alice'') ''alice2'' present_store)) = ''u-123'' \<and>
   created (state (update (serving ''alice'') ''alice2'' present_store)) = ''T0''"
proof -
  have x: "isExistOnServer
             (userStore \<lparr>error = '''', username = ''alice2'', userStore = present_store\<rparr>)"
    by (simp add: present_store_def)
  have u: "state (update (serving ''alice'') ''alice2'' present_store)
             = present_store\<lparr>store_username := ''alice2''\<rparr>"
    by (simp add: update_def serving_def)
  from update_keeps_id_and_created
         [of "serving ''alice''" "''alice2''" present_store
             "\<lparr>error = '''', username = ''alice2'', userStore = present_store\<rparr>"]
    x u
  show ?thesis by (simp add: present_store_def)
qed

text \<open>
  C7. When the promise of the \<open>register\<close> or \<open>update\<close> that a submit awaits is
  fulfilled, the submit goes on to \<open>window.location.reload()\<close>: the method's effects
  are the call and the reload, and on the page the reload follows the settlement.
\<close>

theorem fulfilled_submit_reloads:
  "submit Fulfilled vm = [Dispatch (submit_call vm), Reload] \<and>
   (i < length (outstanding p) \<and> is_mutation (outstanding p ! i) \<longrightarrow>
      (\<exists>p'. step (Settle i Fulfilled) p = Some p' \<and> effects p' = effects p @ [Reload] \<and>
            view p' = view p))"
proof -
  have "submit Fulfilled vm = [Dispatch (submit_call vm), Reload]"
    by (simp add: submit_def submit_call_def)
  moreover have "\<exists>p'. step (Settle i Fulfilled) p = Some p' \<and>
      effects p' = effects p @ [Reload] \<and> view p' = view p"
    if "i < length (outstanding p)" and "is_mutation (outstanding p ! i)"
    using that by (cases "outstanding p ! i") auto
  ultimately show ?thesis by blast
qed

theorem fulfilled_submit_reloads_witness:
  "is_mutation ([Register ''alice''] ! 0) \<and>
   (\<exists>p'. step (Settle 0 Fulfilled)
       \<lparr>view = \<lparr>error = '''', username = ''alice'', userStore = absent_store\<rparr>,
        outstanding = [Register ''alice''],
        effects = [Dispatch EnsureLoaded, Dispatch (Register ''alice'')]\<rparr> = Some p' \<and>
     effects p' = [Dispatch EnsureLoaded, Dispatch (Register ''alice''), Reload])"
  using fulfilled_submit_reloads
    [of "\<lparr>error = '''', username = ''alice'', userStore = absent_store\<rparr>" 0
        "\<lparr>view = \<lparr>error = '''', username = ''alice'', userStore = absent_store\<rparr>,
          outstanding = [Register ''alice''],
          effects = [Dispatch EnsureLoaded, Dispatch (Register ''alice'')]\<rparr>"]
  by simp

text \<open>
  C8. While the store's \<open>_loaded\<close> is false neither form is rendered, so no button is,
  and a click (the only way to \<open>submit\<close>) is not an event of the page.
\<close>

theorem no_submit_before_loaded:
  assumes "\<not> loaded (userStore (view p))"
  shows "update_form (view p) = [] \<and> register_form (view p) = [] \<and>
         \<not> list_ex is_button (render (view p)) \<and> step Click p = None"
  using assms
  by (simp add: button_iff_loaded update_form_def register_form_def)

theorem no_submit_before_loaded_witness:
  "\<not> loaded (userStore (view (open_page fresh_store))) \<and>
   render (view (open_page fresh_store)) = [] \<and>
   step Click (open_page fresh_store) = None"
proof -
  have l: "\<not> loaded (userStore (view (open_page fresh_store)))"
    by (simp add: open_page_def mounted_def init_def call_def data_def fresh_store_def)
  from no_submit_before_loaded [OF l] l show ?thesis
    by (simp add: render_def alert_def open_page_def mounted_def init_def call_def data_def)
qed



text \<open>
  C10. When the promise of \<open>ensureLoaded\<close> is fulfilled, \<open>init\<close> copies the store's
  username into the view's own field. Typing is accepted by the Username input alone and
  assigns to that field; after any run of typing the store, the outstanding calls and the
  effects are what they were.
\<close>

theorem typing_changes_local_username_only:
  "(i < length (outstanding p) \<and> outstanding p ! i = EnsureLoaded \<longrightarrow>
      (\<exists>p'. step (Settle i Fulfilled) p = Some p' \<and>
            view p' = (view p)\<lparr>username := store_username (userStore (view p))\<rparr>)) \<and>
   (step (Type m v) p = Some q \<longrightarrow>
      m = M_username \<and> q = p\<lparr>view := (view p)\<lparr>username := v\<rparr>\<rparr>) \<and>
   (run (map (\<lambda>(m, v). Type m v) ts) p = Some q' \<longrightarrow>
      userStore (view q') = userStore (view p) \<and>
      outstanding q' = outstanding p \<and> effects q' = effects p)"
  using typing_step [of m v p q] typing_run [of ts p q']
  by auto

theorem typing_changes_local_username_only_witness:
  "(\<exists>p'. step (Settle 0 Fulfilled) (open_page present_store) = Some p' \<and>
         username (view p') = ''alice'') \<and>
   step (Type M_username ''alice2'')
     \<lparr>view = \<lparr>error = '''', username = ''alice'', userStore = present_store\<rparr>,
      outstanding = [], effects = [Dispatch EnsureLoaded]\<rparr>
   = Some \<lparr>view = \<lparr>error = '''', username = ''alice2'', userStore = present_store\<rparr>,
           outstanding = [], effects = [Dispatch EnsureLoaded]\<rparr> \<and>
   run (map (\<lambda>(m, v). Type m v) [(M_username, ''a''), (M_username, ''al'')])
     \<lparr>view = \<lparr>error = '''', username = ''alice'', userStore = present_store\<rparr>,
      outstanding = [], effects = [Dispatch EnsureLoaded]\<rparr>
   = Some \<lparr>view = \<lparr>error = '''', username = ''al'', userStore = present_store\<rparr>,
           outstanding = [], effects = [Dispatch EnsureLoaded]\<rparr>"
proof -
  let ?p = "\<lparr>view = \<lparr>error = '''', username = ''alice'', userStore = present_store\<rparr>,
             outstanding = [], effects = [Dispatch EnsureLoaded]\<rparr>"
  let ?q = "\<lparr>view = \<lparr>error = '''', username = ''alice2'', userStore = present_store\<rparr>,
             outstanding = [], effects = [Dispatch EnsureLoaded]\<rparr>"
  let ?q' = "\<lparr>view = \<lparr>error = '''', username = ''al'', userStore = present_store\<rparr>,
              outstanding = [], effects = [Dispatch EnsureLoaded]\<rparr>"
  have o: "outstanding (open_page present_store) = [EnsureLoaded]"
    by (simp add: open_page_def mounted_def init_def call_def)
  have v: "store_username (userStore (view (open_page present_store))) = ''alice''"
    by (simp add: open_page_def mounted_def init_def call_def data_def present_store_def)
  have t: "step (Type M_username ''alice2'') ?p = Some ?q"
    by (simp add: accepts_iff_username present_store_def)
  have r: "run (map (\<lambda>(m, v). Type m v) [(M_username, ''a''), (M_username, ''al'')]) ?p
             = Some ?q'"
    by (simp add: accepts_iff_username present_store_def)
  from typing_changes_local_username_only
         [of 0 "open_page present_store" M_username "''alice2''" ?p "[]" ?p]
    typing_changes_local_username_only
         [of 0 ?p M_username "''alice2''" ?q
             "[(M_username, ''a''), (M_username, ''al'')]" ?q']
    o v t r
  show ?thesis by auto
qed

end
